theory Spec2Isabelle
  imports Main "HOL-Library.Word"
begin

section \<open>JavaScript values\<close>

text \<open>
  A JavaScript string is a sequence of 16-bit code units. \<open>js\<close> writes a string literal of the
  source as such a sequence.
\<close>

type_synonym jschar = "16 word"
type_synonym jsstring = "jschar list"

definition js :: "string \<Rightarrow> jsstring" where
  "js s = map of_char s"

definition newline :: jschar where
  "newline = 10"

definition space :: jschar where
  "space = 32"

text \<open>
  The values that \<open>JSON.parse\<close> produces and \<open>JSON.stringify\<close> consumes. An object is the list
  of its own properties, each name once. Numbers are the integers (request ids and limits);
  \<open>undefined\<close> is \<open>None\<close> of \<open>json option\<close>.
\<close>

datatype json =
    JNull
  | JBool bool
  | JNum int
  | JStr jsstring
  | JArr "json list"
  | JObj "(jsstring \<times> json) list"

text \<open>Truthiness, as \<open>if (v)\<close> and \<open>!v\<close> decide it.\<close>

fun truthy :: "json option \<Rightarrow> bool" where
  "truthy None = False"
| "truthy (Some JNull) = False"
| "truthy (Some (JBool b)) = b"
| "truthy (Some (JNum n)) = (n \<noteq> 0)"
| "truthy (Some (JStr s)) = (s \<noteq> [])"
| "truthy (Some (JArr xs)) = True"
| "truthy (Some (JObj kvs)) = True"

text \<open>
  \<open>v.name\<close> on a value that is neither \<open>null\<close> nor \<open>undefined\<close>, for the property names this
  client reads (\<open>id\<close>, \<open>error\<close>, \<open>message\<close>, \<open>result\<close>, \<open>content\<close>, \<open>text\<close>): none of them is
  defined on a built-in prototype, so only an object can have one.
\<close>

fun get_property :: "json \<Rightarrow> jsstring \<Rightarrow> json option" where
  "get_property (JObj kvs) name = map_of kvs name"
| "get_property v name = None"

text \<open>\<open>v[0]\<close> on a value that is neither \<open>null\<close> nor \<open>undefined\<close>.\<close>

fun get_index0 :: "json \<Rightarrow> json option" where
  "get_index0 (JArr xs) = (case xs of [] \<Rightarrow> None | x # rest \<Rightarrow> Some x)"
| "get_index0 (JStr s) = (case s of [] \<Rightarrow> None | c # rest \<Rightarrow> Some (JStr [c]))"
| "get_index0 (JObj kvs) = map_of kvs (js ''0'')"
| "get_index0 v = None"

text \<open>Optional chaining \<open>v?.f\<close>: \<open>undefined\<close> when \<open>v\<close> is \<open>null\<close> or \<open>undefined\<close>.\<close>

fun optional :: "json option \<Rightarrow> (json \<Rightarrow> json option) \<Rightarrow> json option" where
  "optional None f = None"
| "optional (Some JNull) f = None"
| "optional (Some v) f = f v"

text \<open>
  \<open>String.prototype.trim\<close> removes white space and line terminators from both ends:
  TAB, LF, VT, FF, CR, SP, NBSP, the Unicode space separators, LS, PS and the BOM.
\<close>

definition is_whitespace :: "jschar \<Rightarrow> bool" where
  "is_whitespace c \<longleftrightarrow>
     c \<in> {0x9, 0xA, 0xB, 0xC, 0xD, 0x20, 0xA0, 0x1680, 0x2028, 0x2029, 0x202F, 0x205F,
           0x3000, 0xFEFF}
     \<or> (0x2000 \<le> c \<and> c \<le> 0x200A)"

definition trim :: "jsstring \<Rightarrow> jsstring" where
  "trim s = rev (dropWhile is_whitespace (rev (dropWhile is_whitespace s)))"

text \<open>\<open>s.split(sep)\<close> for a one-character separator. The result is never the empty list, so
  the first branch of the case distinction is never taken.\<close>

fun split_on :: "jschar \<Rightarrow> jsstring \<Rightarrow> jsstring list" where
  "split_on sep [] = [[]]"
| "split_on sep (c # cs) =
     (if c = sep then [] # split_on sep cs
      else (case split_on sep cs of [] \<Rightarrow> [[c]] | piece # pieces \<Rightarrow> (c # piece) # pieces))"

section \<open>The client and its runtime\<close>

text \<open>
  Errors: \<open>new Error(message)\<close> keeps the value handed to the constructor; \<open>SyntaxError\<close> is
  what \<open>JSON.parse\<close> throws, \<open>TypeError\<close> what reading a property of \<open>null\<close> throws and what
  \<open>spawn\<close> throws on an empty file name, and \<open>ProcessFailure\<close> is the error object of the
  child process' \<open>error\<close> event.
\<close>

datatype error =
    Error "json option"
  | SyntaxError
  | TypeError
  | ProcessFailure

text \<open>A promise is settled at most once.\<close>

datatype settlement =
    Pending
  | Fulfilled "json option"
  | Rejected error

text \<open>
  What the client does to the outside world, in order: spawning a process, writing to the
  standard input of process \<open>p\<close>, killing it, arming a timer (with the \<open>id\<close> and the promise its
  closure captured, and the delay), and console output. A write of
  \<open>JSON.stringify(v) + s\<close> is kept as the value \<open>v\<close> and the string \<open>s\<close>.
\<close>

datatype effect =
    Spawn jsstring "jsstring list"
  | StdinWrite nat json jsstring
  | Kill nat
  | SetTimeout nat nat nat
  | ConsoleError jsstring jsstring "error option"
  | ConsoleLog jsstring "int option"

text \<open>The fields of class \<open>McpClient\<close>. A process is named by its handle; the pending map
  takes a request id to the promise whose \<open>resolve\<close> and \<open>reject\<close> it stores.\<close>

record McpClient =
  process :: "nat option"
  command :: jsstring
  requestId :: nat
  pendingRequests :: "nat \<rightharpoonup> nat"
  buffer :: jsstring
  connected :: bool

text \<open>
  The client together with the runtime it lives in: the promises created so far (a promise
  handle is an index), for every process spawned so far (its handle is the index) the promise
  of the \<open>connect()\<close> that spawned it, the reactions \<open>initialize().then(...).catch(reject)\<close>
  not yet run (the promise of \<open>initialize\<close>, the promise of \<open>connect\<close>), and the effects so far.
\<close>

record system = McpClient +
  promises :: "settlement list"
  spawned :: "nat list"
  reactions :: "(nat \<times> nat) list"
  effects :: "effect list"

definition new_client :: "jsstring \<Rightarrow> system" where
  "new_client cmd =
     \<lparr>process = None, command = cmd, requestId = 0, pendingRequests = Map.empty,
      buffer = [], connected = False,
      promises = [], spawned = [], reactions = [], effects = []\<rparr>"

definition new_promise :: "settlement \<Rightarrow> system \<Rightarrow> nat \<times> system" where
  "new_promise s c = (length (promises c), c\<lparr>promises := promises c @ [s]\<rparr>)"

definition settlement_of :: "system \<Rightarrow> nat \<Rightarrow> settlement" where
  "settlement_of c p = (if p < length (promises c) then promises c ! p else Pending)"

text \<open>\<open>resolve\<close> and \<open>reject\<close> of a promise: only the first of them has an effect.\<close>

definition settle :: "nat \<Rightarrow> settlement \<Rightarrow> system \<Rightarrow> system" where
  "settle p s c =
     (if p < length (promises c) \<and> promises c ! p = Pending
      then c\<lparr>promises := (promises c)[p := s]\<rparr> else c)"

text \<open>
  \<open>++this.requestId\<close>. The counter is a JavaScript number, which counts exactly up to
  \<open>2 ^ 53\<close>; there adding one rounds back to the same number.
\<close>

definition increment :: "nat \<Rightarrow> nat" where
  "increment n = (if n < 2 ^ 53 then n + 1 else n)"

subsection \<open>call\<close>

text \<open>
  \<open>call\<close> is asynchronous: it returns a promise, already rejected when the guard throws.
\<close>

definition call :: "jsstring \<Rightarrow> json \<Rightarrow> system \<Rightarrow> nat \<times> system" where
  "call method params c =
     (case process c of
        None \<Rightarrow> new_promise (Rejected (Error (Some (JStr (js ''Not connected to MCP server''))))) c
      | Some p \<Rightarrow>
          (let ident = increment (requestId c);
               request = JObj [(js ''jsonrpc'', JStr (js ''2.0'')),
                               (js ''method'', JStr method),
                               (js ''params'', params),
                               (js ''id'', JNum (int ident))];
               (pr, c1) = new_promise Pending (c\<lparr>requestId := ident\<rparr>);
               c2 = c1\<lparr>pendingRequests := (pendingRequests c1)(ident \<mapsto> pr)\<rparr>;
               c3 = c2\<lparr>effects := effects c2 @ [StdinWrite p request [newline]]\<rparr>
           in (pr, c3\<lparr>effects := effects c3 @ [SetTimeout ident pr 30000]\<rparr>)))"

text \<open>The body of the timer that \<open>call\<close> arms, for the \<open>id\<close> and the promise it captured.\<close>

definition timeout_handler :: "nat \<Rightarrow> nat \<Rightarrow> system \<Rightarrow> system" where
  "timeout_handler ident pr c =
     (if pendingRequests c ident \<noteq> None
      then settle pr (Rejected (Error (Some (JStr (js ''Request timeout'')))))
             (c\<lparr>pendingRequests := (pendingRequests c)(ident := None)\<rparr>)
      else c)"

subsection \<open>handleData\<close>

text \<open>The framing part of \<open>handleData\<close>: the complete lines and the new buffer.\<close>

definition feed :: "jsstring \<Rightarrow> jsstring \<Rightarrow> jsstring list \<times> jsstring" where
  "feed buf data =
     (let lines = split_on newline (buf @ data)
      in (butlast lines, (if last lines = [] then [] else last lines)))"

text \<open>
  \<open>this.pendingRequests.get(response.id)\<close>: the keys of the map are the numbers that \<open>call\<close>
  stored, so only a number that is one of them finds an entry.
\<close>

fun lookup_pending :: "system \<Rightarrow> json option \<Rightarrow> nat option" where
  "lookup_pending c (Some (JNum n)) = (if 0 \<le> n then pendingRequests c (nat n) else None)"
| "lookup_pending c v = None"

fun pending_key :: "json option \<Rightarrow> nat" where
  "pending_key (Some (JNum n)) = nat n"
| "pending_key v = 0"

text \<open>The body of the \<open>try\<close> block once \<open>JSON.parse\<close> has returned \<open>response\<close>.\<close>

definition route :: "jsstring \<Rightarrow> json \<Rightarrow> system \<Rightarrow> system" where
  "route line response c =
     (if response = JNull
      then c\<lparr>effects := effects c @
             [ConsoleError (js ''Failed to parse MCP response:'') line (Some TypeError)]\<rparr>
      else
        (case lookup_pending c (get_property response (js ''id'')) of
           None \<Rightarrow> c
         | Some pr \<Rightarrow>
             (let c1 = c\<lparr>pendingRequests :=
                          (pendingRequests c)(pending_key (get_property response (js ''id'')) := None)\<rparr>
              in if truthy (get_property response (js ''error''))
                 then settle pr
                        (Rejected (Error (optional (get_property response (js ''error''))
                                            (\<lambda>e. get_property e (js ''message''))))) c1
                 else settle pr (Fulfilled (get_property response (js ''result''))) c1)))"

text \<open>One round of the loop over the lines. \<open>JSON.parse\<close> is a parameter: it takes any value
  (a string here), and \<open>None\<close> is its \<open>SyntaxError\<close>.\<close>

definition process_line :: "(json \<Rightarrow> json option) \<Rightarrow> jsstring \<Rightarrow> system \<Rightarrow> system" where
  "process_line parse line c =
     (if trim line = [] then c
      else
        (case parse (JStr line) of
           None \<Rightarrow> c\<lparr>effects := effects c @
                      [ConsoleError (js ''Failed to parse MCP response:'') line (Some SyntaxError)]\<rparr>
         | Some response \<Rightarrow> route line response c))"

fun process_lines :: "(json \<Rightarrow> json option) \<Rightarrow> jsstring list \<Rightarrow> system \<Rightarrow> system" where
  "process_lines parse [] c = c"
| "process_lines parse (line # lines) c = process_lines parse lines (process_line parse line c)"

definition handleData :: "(json \<Rightarrow> json option) \<Rightarrow> jsstring \<Rightarrow> system \<Rightarrow> system" where
  "handleData parse data c =
     (let (lines, rest) = feed (buffer c) data
      in process_lines parse lines (c\<lparr>buffer := rest\<rparr>))"



subsection \<open>connect, initialize, disconnect\<close>

definition initialize :: "system \<Rightarrow> nat \<times> system" where
  "initialize c =
     call (js ''initialize'')
       (JObj [(js ''protocolVersion'', JStr (js ''0.1.0'')),
              (js ''capabilities'', JObj []),
              (js ''clientInfo'', JObj [(js ''name'', JStr (js ''caiide-memory'')),
                                        (js ''version'', JStr (js ''0.1.0''))])]) c"

text \<open>
  \<open>connect\<close> returns a promise. \<open>spawn\<close> throws at once when the file name, the first piece
  of the command, is empty (an empty command, or one that starts with a space): the throw
  happens inside the executor of the promise, before \<open>this.process\<close> is assigned, so the promise
  is rejected and nothing else has happened.
\<close>

definition connect :: "system \<Rightarrow> nat \<times> system" where
  "connect c =
     (if connected c \<and> process c \<noteq> None then new_promise (Fulfilled None) c
      else
        (let parts = split_on space (command c)
         in if hd parts = [] then new_promise (Rejected TypeError) c
            else
              (let (cp, c1) = new_promise Pending c;
                   c2 = c1\<lparr>process := Some (length (spawned c1)),
                           spawned := spawned c1 @ [cp],
                           effects := effects c1 @ [Spawn (hd parts) (tl parts)]\<rparr>;
                   (ip, c3) = initialize c2
               in (cp, c3\<lparr>reactions := reactions c3 @ [(ip, cp)]\<rparr>))))"

definition disconnect :: "system \<Rightarrow> system" where
  "disconnect c =
     (case process c of
        None \<Rightarrow> c
      | Some p \<Rightarrow> c\<lparr>effects := effects c @ [Kill p], process := None, connected := False\<rparr>)"

definition isConnected :: "system \<Rightarrow> bool" where
  "isConnected c = connected c"

text \<open>The reaction to the promise of \<open>initialize\<close>, run once that promise is settled.\<close>

definition react :: "nat \<times> nat \<Rightarrow> system \<Rightarrow> system" where
  "react r c =
     (case settlement_of c (fst r) of
        Pending \<Rightarrow> c\<lparr>reactions := reactions c @ [r]\<rparr>
      | Fulfilled v \<Rightarrow> settle (snd r) (Fulfilled None) (c\<lparr>connected := True\<rparr>)
      | Rejected e \<Rightarrow> settle (snd r) (Rejected e) c)"

definition microtasks :: "system \<Rightarrow> system" where
  "microtasks c = fold react (reactions c) (c\<lparr>reactions := []\<rparr>)"

subsection \<open>The typed methods\<close>

text \<open>Each typed method awaits \<open>call\<close>; the first function of each pair issues the call, the
  second is what the method does with the value the call's promise was fulfilled with. For
  \<open>store\<close>, \<open>getStats\<close> and \<open>delete\<close> only the call is given.\<close>

definition tool_request :: "jsstring \<Rightarrow> json \<Rightarrow> json" where
  "tool_request name arguments = JObj [(js ''name'', JStr name), (js ''arguments'', arguments)]"

definition content_text :: "json option \<Rightarrow> json option" where
  "content_text result =
     optional (optional (optional result (\<lambda>r. get_property r (js ''content''))) get_index0)
       (\<lambda>e. get_property e (js ''text''))"

definition search :: "jsstring \<Rightarrow> int option \<Rightarrow> system \<Rightarrow> nat \<times> system" where
  "search query limit c =
     call (js ''tools/call'')
       (tool_request (js ''memory_search'')
          (JObj [(js ''query'', JStr query),
                 (js ''limit'', JNum (case limit of None \<Rightarrow> 20 | Some l \<Rightarrow> l))])) c"

definition search_result :: "(json \<Rightarrow> json option) \<Rightarrow> json option \<Rightarrow> error + json" where
  "search_result parse result =
     (case content_text result of
        None \<Rightarrow> Inr (JArr [])
      | Some text \<Rightarrow>
          if truthy (Some text)
          then (case parse text of None \<Rightarrow> Inr (JArr []) | Some v \<Rightarrow> Inr v)
          else Inr (JArr []))"

definition recall :: "jsstring \<Rightarrow> system \<Rightarrow> nat \<times> system" where
  "recall ident c =
     call (js ''tools/call'')
       (tool_request (js ''memory_recall'') (JObj [(js ''id'', JStr ident)])) c"

definition recall_result :: "(json \<Rightarrow> json option) \<Rightarrow> json option \<Rightarrow> error + json" where
  "recall_result parse result =
     (case content_text result of
        None \<Rightarrow> Inr JNull
      | Some text \<Rightarrow>
          if truthy (Some text)
          then (case parse text of None \<Rightarrow> Inr JNull | Some v \<Rightarrow> Inr v)
          else Inr JNull)"

definition list_memories :: "int option \<Rightarrow> system \<Rightarrow> nat \<times> system" where
  "list_memories limit c =
     call (js ''tools/call'')
       (tool_request (js ''memory_list'')
          (JObj [(js ''limit'', JNum (case limit of None \<Rightarrow> 20 | Some l \<Rightarrow> l))])) c"

definition list_result :: "(json \<Rightarrow> json option) \<Rightarrow> json option \<Rightarrow> error + json" where
  "list_result parse result =
     (case content_text result of
        None \<Rightarrow> Inr (JArr [])
      | Some text \<Rightarrow>
          if truthy (Some text)
          then (case parse text of None \<Rightarrow> Inr (JArr []) | Some v \<Rightarrow> Inr v)
          else Inr (JArr []))"

definition store :: "jsstring \<Rightarrow> jsstring \<Rightarrow> jsstring \<Rightarrow> jsstring list option \<Rightarrow> system \<Rightarrow> nat \<times> system" where
  "store content type source tags c =
     call (js ''tools/call'')
       (tool_request (js ''memory_store'')
          (JObj [(js ''content'', JStr content),
                 (js ''type'', JStr type),
                 (js ''source'', JStr source),
                 (js ''tags'', JArr (map JStr (case tags of None \<Rightarrow> [] | Some ts \<Rightarrow> ts)))])) c"

definition getStats :: "system \<Rightarrow> nat \<times> system" where
  "getStats c = call (js ''tools/call'') (tool_request (js ''memory_stats'') (JObj [])) c"

definition delete_memory :: "jsstring \<Rightarrow> system \<Rightarrow> nat \<times> system" where
  "delete_memory ident c =
     call (js ''tools/call'')
       (tool_request (js ''memory_delete'') (JObj [(js ''id'', JStr ident)])) c"

text \<open>A typed method's own promise follows the promise of its call.\<close>

definition awaited :: "(json option \<Rightarrow> error + json) \<Rightarrow> settlement \<Rightarrow> settlement" where
  "awaited k s =
     (case s of
        Pending \<Rightarrow> Pending
      | Rejected e \<Rightarrow> Rejected e
      | Fulfilled result \<Rightarrow> (case k result of Inl e \<Rightarrow> Rejected e | Inr v \<Rightarrow> Fulfilled (Some v)))"

subsection \<open>Events\<close>

text \<open>
  What can happen to a client: a caller invokes \<open>connect\<close>, \<open>disconnect\<close> or (through a typed
  method) \<open>call\<close>; a process the client spawned writes to its output or error stream, fails or
  closes; a timer fires. A data event carries the chunk as the string that \<open>data.toString()\<close>
  made of it. Only a process that was spawned has handlers, and only a timer that was armed
  fires. After each event, the reactions whose promise is settled run.
\<close>

datatype event =
    Connect
  | Disconnect
  | Call jsstring json
  | StdoutData nat jsstring
  | StderrData nat jsstring
  | ProcessError nat
  | ProcessClose nat "int option"
  | TimerFired nat nat

fun handle :: "(json \<Rightarrow> json option) \<Rightarrow> event \<Rightarrow> system \<Rightarrow> system" where
  "handle parse Connect c = snd (connect c)"
| "handle parse Disconnect c = disconnect c"
| "handle parse (Call method params) c = snd (call method params c)"
| "handle parse (StdoutData p data) c =
     (if p < length (spawned c) then handleData parse data c else c)"
| "handle parse (StderrData p data) c =
     (if p < length (spawned c)
      then c\<lparr>effects := effects c @ [ConsoleError (js ''MCP stderr:'') data None]\<rparr> else c)"
| "handle parse (ProcessError p) c =
     (if p < length (spawned c)
      then settle (spawned c ! p) (Rejected ProcessFailure) (c\<lparr>connected := False\<rparr>) else c)"
| "handle parse (ProcessClose p code) c =
     (if p < length (spawned c)
      then c\<lparr>connected := False,
              effects := effects c @ [ConsoleLog (js ''MCP process exited with code '') code]\<rparr>
      else c)"
| "handle parse (TimerFired ident pr) c =
     (if SetTimeout ident pr 30000 \<in> set (effects c) then timeout_handler ident pr c else c)"

definition step :: "(json \<Rightarrow> json option) \<Rightarrow> event \<Rightarrow> system \<Rightarrow> system" where
  "step parse e c = microtasks (handle parse e c)"

fun run :: "(json \<Rightarrow> json option) \<Rightarrow> event list \<Rightarrow> system \<Rightarrow> system" where
  "run parse [] c = c"
| "run parse (e # es) c = run parse es (step parse e c)"

text \<open>The request ids assigned so far, in the order of the calls: every call that passes the
  guard arms one timer, which captures the call's id.\<close>

fun issued :: "effect list \<Rightarrow> nat list" where
  "issued [] = []"
| "issued (SetTimeout ident pr delay # es) = ident # issued es"
| "issued (e # es) = issued es"

text \<open>The values written to the standard input of a worker, in order.\<close>

fun written :: "effect list \<Rightarrow> json list" where
  "written [] = []"
| "written (StdinWrite p v s # es) = v # written es"
| "written (e # es) = written es"

text \<open>How one step changes the id counter and the ids issued: not at all, or the counter is
  incremented and its new value is the one id issued.\<close>

definition id_step :: "system \<Rightarrow> system \<Rightarrow> bool" where
  "id_step c d \<longleftrightarrow>
     requestId d = requestId c \<and> issued (effects d) = issued (effects c)
     \<or> requestId d = increment (requestId c)
       \<and> issued (effects d) = issued (effects c) @ [increment (requestId c)]"

subsection \<open>Feeding several chunks\<close>


subsection \<open>Invariants\<close>

text \<open>The timers armed so far: the id and the promise each one captured.\<close>

fun timers :: "effect list \<Rightarrow> (nat \<times> nat) list" where
  "timers [] = []"
| "timers (SetTimeout ident pr delay # es) = (ident, pr) # timers es"
| "timers (e # es) = timers es"



subsection \<open>Examples\<close>

text \<open>A decoder for the examples: it agrees with \<open>JSON.parse\<close> on the lines listed, and on
  \<open>oops\<close>, which is not JSON; it is used on no other text.\<close>

definition sample_lines :: "(jsstring \<times> json) list" where
  "sample_lines =
     [(js ''{\"id\":1,\"result\":true}'', JObj [(js ''id'', JNum 1), (js ''result'', JBool True)]),
      (js ''{\"id\":2,\"result\":true}'', JObj [(js ''id'', JNum 2), (js ''result'', JBool True)]),
      (js ''{\"id\":7,\"result\":true}'', JObj [(js ''id'', JNum 7), (js ''result'', JBool True)]),
      (js ''{\"id\":1,\"error\":{\"message\":\"no\"}}'',
         JObj [(js ''id'', JNum 1), (js ''error'', JObj [(js ''message'', JStr (js ''no''))])])]"

fun sample_parse :: "json \<Rightarrow> json option" where
  "sample_parse (JStr s) = map_of sample_lines s"
| "sample_parse v = None"

text \<open>A client that has spawned its worker and awaits the answer to \<open>initialize\<close>; the
  client once that answer has arrived; a client whose worker has exited after the handshake;
  and a ready client with one search outstanding.\<close>

definition connecting_client :: system where
  "connecting_client = step sample_parse Connect (new_client (js ''memory-server --stdio''))"

definition ready_client :: system where
  "ready_client =
     step sample_parse (StdoutData 0 (js ''{\"id\":1,\"result\":true}'' @ [newline]))
       connecting_client"

definition closed_client :: system where
  "closed_client = step sample_parse (ProcessClose 0 (Some 1)) ready_client"

definition searching_client :: system where
  "searching_client = snd (search (js ''foo'') (Some 20) ready_client)"







section \<open>The framer\<close>

lemma split_on_nonempty [simp]: "split_on sep s \<noteq> []"
  by (induction s) (auto split: list.splits)

lemma split_on_append_sep:
  "split_on sep (a @ sep # b) = split_on sep a @ split_on sep b"
  by (induction a) (auto split: list.splits)

lemma split_on_nosep: "sep \<notin> set s \<Longrightarrow> split_on sep s = [s]"
  by (induction s) auto


text \<open>Splitting a text that arrives in two parts: the lines completed by the first part, then
  the split of its unfinished last line followed by the second part.\<close>

lemma split_on_append:
  "split_on sep (a @ b) =
     butlast (split_on sep a) @ split_on sep (last (split_on sep a) @ b)"
proof (induction a)
  case Nil
  then show ?case by simp
next
  case (Cons c a)
  obtain h t where ht: "split_on sep a = h # t"
    by (cases "split_on sep a") auto
  show ?case
  proof (cases "c = sep")
    case True
    then show ?thesis using Cons by simp
  next
    case False
    show ?thesis
    proof (cases t)
      case Nil
      then show ?thesis using Cons False ht by simp
    next
      case (Cons y ys)
      then show ?thesis using Cons.IH False ht by simp
    qed
  qed
qed


lemma feed_eq:
  "feed buf data =
     (butlast (split_on newline (buf @ data)), last (split_on newline (buf @ data)))"
  by (simp add: feed_def Let_def)


lemma feed_append:
  "feed buf (d1 @ d2) =
     (fst (feed buf d1) @ fst (feed (snd (feed buf d1)) d2), snd (feed (snd (feed buf d1)) d2))"
proof -
  let ?s = "split_on newline (buf @ d1)"
  have eq: "split_on newline (buf @ d1 @ d2) = butlast ?s @ split_on newline (last ?s @ d2)"
    using split_on_append [of newline "buf @ d1" d2] by simp
  show ?thesis
    by (simp add: feed_eq eq butlast_append)
qed


lemma feed_nothing: "newline \<notin> set buf \<Longrightarrow> feed buf [] = ([], buf)"
  by (simp add: feed_eq split_on_nosep)

section \<open>The loop over the lines\<close>

lemma lookup_pending_buffer [simp]: "lookup_pending (c\<lparr>buffer := b\<rparr>) v = lookup_pending c v"
  by (cases "(c, v)" rule: lookup_pending.cases) auto

lemma route_buffer: "route line r (c\<lparr>buffer := b\<rparr>) = (route line r c)\<lparr>buffer := b\<rparr>"
  by (simp add: route_def Let_def settle_def split: option.splits)

lemma process_line_buffer:
  "process_line parse l (c\<lparr>buffer := b\<rparr>) = (process_line parse l c)\<lparr>buffer := b\<rparr>"
  by (simp add: process_line_def route_buffer split: option.splits)

lemma process_lines_buffer:
  "process_lines parse ls (c\<lparr>buffer := b\<rparr>) = (process_lines parse ls c)\<lparr>buffer := b\<rparr>"
  by (induction ls arbitrary: c) (simp_all add: process_line_buffer)

lemma process_lines_append:
  "process_lines parse (xs @ ys) c = process_lines parse ys (process_lines parse xs c)"
  by (induction xs arbitrary: c) simp_all

lemma handleData_eq:
  "handleData parse data c =
     (process_lines parse (fst (feed (buffer c) data)) c)\<lparr>buffer := snd (feed (buffer c) data)\<rparr>"
  by (simp add: handleData_def split_def Let_def process_lines_buffer)







text \<open>Two states that differ in their effects only stay so under the loop.\<close>

lemma erase_eqD:
  fixes c d :: system
  shows "c\<lparr>effects := []\<rparr> = d\<lparr>effects := []\<rparr> \<Longrightarrow> d = c\<lparr>effects := effects d\<rparr>"
  by (cases c, cases d) simp

lemma lookup_pending_effects [simp]: "lookup_pending (c\<lparr>effects := E\<rparr>) v = lookup_pending c v"
  by (cases "(c, v)" rule: lookup_pending.cases) auto

lemma route_effects:
  "(route line r (c\<lparr>effects := E\<rparr>))\<lparr>effects := []\<rparr> = (route line r c)\<lparr>effects := []\<rparr>"
  by (simp add: route_def Let_def settle_def split: option.splits)

lemma process_line_effects:
  "(process_line parse l (c\<lparr>effects := E\<rparr>))\<lparr>effects := []\<rparr>
     = (process_line parse l c)\<lparr>effects := []\<rparr>"
  by (simp add: process_line_def route_effects split: option.splits)

lemma process_line_erase:
  assumes "c\<lparr>effects := []\<rparr> = c'\<lparr>effects := []\<rparr>"
  shows "(process_line parse l c)\<lparr>effects := []\<rparr> = (process_line parse l c')\<lparr>effects := []\<rparr>"
proof -
  have "c' = c\<lparr>effects := effects c'\<rparr>" using assms by (rule erase_eqD)
  then show ?thesis using process_line_effects [where c = c and E = "effects c'"] by simp
qed

lemma process_lines_erase:
  "c\<lparr>effects := []\<rparr> = c'\<lparr>effects := []\<rparr> \<Longrightarrow>
   (process_lines parse ls c)\<lparr>effects := []\<rparr> = (process_lines parse ls c')\<lparr>effects := []\<rparr>"
proof (induction ls arbitrary: c c')
  case Nil
  then show ?case by simp
next
  case (Cons l ls)
  show ?case using Cons.IH [OF process_line_erase [OF Cons.prems]] by simp
qed

lemma erase_buffer:
  fixes c c' :: system
  shows "c\<lparr>effects := []\<rparr> = c'\<lparr>effects := []\<rparr> \<Longrightarrow> buffer c = buffer c'"
  by (cases c, cases c') simp

lemma erase_update_buffer:
  fixes c c' :: system
  shows "c\<lparr>effects := []\<rparr> = c'\<lparr>effects := []\<rparr> \<Longrightarrow>
         c\<lparr>buffer := b, effects := []\<rparr> = c'\<lparr>buffer := b, effects := []\<rparr>"
  by (cases c, cases c') simp

lemma handleData_erase:
  assumes "c\<lparr>effects := []\<rparr> = c'\<lparr>effects := []\<rparr>"
  shows "(handleData parse d c)\<lparr>effects := []\<rparr> = (handleData parse d c')\<lparr>effects := []\<rparr>"
proof -
  have b: "buffer c = buffer c'" using assms by (rule erase_buffer)
  show ?thesis
    using erase_update_buffer [OF process_lines_erase [OF assms, of parse "fst (feed (buffer c') d)"],
        of "snd (feed (buffer c') d)"]
    by (simp add: handleData_eq b)
qed

lemma fold_handleData_erase:
  "c\<lparr>effects := []\<rparr> = c'\<lparr>effects := []\<rparr> \<Longrightarrow>
   (fold (handleData parse) ds c)\<lparr>effects := []\<rparr> = (fold (handleData parse) ds c')\<lparr>effects := []\<rparr>"
proof (induction ds arbitrary: c c')
  case Nil
  then show ?case by simp
next
  case (Cons d ds)
  show ?case using Cons.IH [OF handleData_erase [OF Cons.prems]] by simp
qed

lemma process_line_malformed:
  "parse (JStr bad) = None \<Longrightarrow>
   process_line parse bad c =
     (if trim bad = [] then c
      else c\<lparr>effects := effects c @
              [ConsoleError (js ''Failed to parse MCP response:'') bad (Some SyntaxError)]\<rparr>)"
  by (simp add: process_line_def)

lemma feed_line_boundary:
  assumes "snd (feed buf pre) = []" and "newline \<notin> set bad"
  shows "feed buf (pre @ bad @ newline # post) = (fst (feed buf pre) @ bad # fst (feed [] post), snd (feed [] post))"
    and "feed buf (pre @ post) = (fst (feed buf pre) @ fst (feed [] post), snd (feed [] post))"
proof -
  have "split_on newline (bad @ newline # post) = bad # split_on newline post"
    using assms(2) split_on_append_sep [of newline bad post] by (simp add: split_on_nosep)
  then have "feed [] (bad @ newline # post) = (bad # fst (feed [] post), snd (feed [] post))"
    by (simp add: feed_eq)
  then show "feed buf (pre @ bad @ newline # post) = (fst (feed buf pre) @ bad # fst (feed [] post), snd (feed [] post))"
    using assms(1) feed_append [of buf pre "bad @ newline # post"] by simp
  show "feed buf (pre @ post) = (fst (feed buf pre) @ fst (feed [] post), snd (feed [] post))"
    using assms(1) feed_append [of buf pre post] by simp
qed


section \<open>String literals\<close>

lemma unat_of_char: "unat (of_char c :: 16 word) = of_char c"
proof -
  have "(of_char c :: 16 word) = of_nat (of_char c)"
    by (simp only: of_nat_of_char)
  moreover have "(of_char c :: nat) < 2 ^ 16"
  proof -
    have "(of_char c :: nat) < 256" by (rule nat_of_char_less_256)
    also have "(256 :: nat) < 2 ^ 16" by simp
    finally show ?thesis .
  qed
  ultimately show ?thesis
    by (simp add: unat_of_nat take_bit_nat_eq_self)
qed

lemma of_char_word_eq_iff: "(of_char c :: 16 word) = of_char d \<longleftrightarrow> c = d"
proof
  assume "(of_char c :: 16 word) = of_char d"
  then have "unat (of_char c :: 16 word) = unat (of_char d :: 16 word)" by simp
  then show "c = d" by (simp add: unat_of_char)
qed simp

lemma js_eq_iff [simp]: "js s = js t \<longleftrightarrow> s = t"
  by (simp add: js_def inj_map_eq_map inj_def of_char_word_eq_iff)

lemma js_empty_iff [simp]: "js s = [] \<longleftrightarrow> s = []"
  by (simp add: js_def)

section \<open>What a call does\<close>

lemma call_not_connected:
  "process c = None \<Longrightarrow>
   call method params c =
     (length (promises c),
      c\<lparr>promises := promises c @
           [Rejected (Error (Some (JStr (js ''Not connected to MCP server''))))]\<rparr>)"
  by (simp add: call_def new_promise_def)

lemma call_connected:
  "process c = Some p \<Longrightarrow>
   call method params c =
     (length (promises c),
      c\<lparr>requestId := increment (requestId c),
        pendingRequests := (pendingRequests c)(increment (requestId c) \<mapsto> length (promises c)),
        promises := promises c @ [Pending],
        effects := effects c @
          [StdinWrite p
             (JObj [(js ''jsonrpc'', JStr (js ''2.0'')),
                    (js ''method'', JStr method),
                    (js ''params'', params),
                    (js ''id'', JNum (int (increment (requestId c))))])
             [newline],
           SetTimeout (increment (requestId c)) (length (promises c)) 30000]\<rparr>)"
  by (simp add: call_def new_promise_def Let_def)

lemma written_append [simp]: "written (xs @ ys) = written xs @ written ys"
  by (induction xs rule: written.induct) simp_all

lemma issued_append [simp]: "issued (xs @ ys) = issued xs @ issued ys"
  by (induction xs rule: issued.induct) simp_all

section \<open>What a connect does\<close>

lemma connect_ready:
  "connected c \<and> process c \<noteq> None \<Longrightarrow>
   snd (connect c) = c\<lparr>promises := promises c @ [Fulfilled None]\<rparr>"
  by (simp add: connect_def new_promise_def)

lemma connect_refused:
  "\<not> (connected c \<and> process c \<noteq> None) \<Longrightarrow> hd (split_on space (command c)) = [] \<Longrightarrow>
   snd (connect c) = c\<lparr>promises := promises c @ [Rejected TypeError]\<rparr>"
  by (auto simp add: connect_def new_promise_def Let_def)

lemma connect_fresh:
  "\<not> (connected c \<and> process c \<noteq> None) \<Longrightarrow> hd (split_on space (command c)) \<noteq> [] \<Longrightarrow>
   snd (connect c) =
     c\<lparr>process := Some (length (spawned c)),
       requestId := increment (requestId c),
       pendingRequests := (pendingRequests c)(increment (requestId c) \<mapsto> Suc (length (promises c))),
       promises := promises c @ [Pending, Pending],
       spawned := spawned c @ [length (promises c)],
       reactions := reactions c @ [(Suc (length (promises c)), length (promises c))],
       effects := effects c @
         [Spawn (hd (split_on space (command c))) (tl (split_on space (command c))),
          StdinWrite (length (spawned c))
            (JObj [(js ''jsonrpc'', JStr (js ''2.0'')),
                   (js ''method'', JStr (js ''initialize'')),
                   (js ''params'',
                      JObj [(js ''protocolVersion'', JStr (js ''0.1.0'')),
                            (js ''capabilities'', JObj []),
                            (js ''clientInfo'',
                               JObj [(js ''name'', JStr (js ''caiide-memory'')),
                                     (js ''version'', JStr (js ''0.1.0''))])]),
                   (js ''id'', JNum (int (increment (requestId c))))])
            [newline],
          SetTimeout (increment (requestId c)) (Suc (length (promises c))) 30000]\<rparr>"
  by (auto simp add: connect_def new_promise_def initialize_def call_connected Let_def split_def)

text \<open>The three cases of a connect.\<close>

lemma connect_cases:
  obtains (ready) "connected c \<and> process c \<noteq> None"
  | (refused) "\<not> (connected c \<and> process c \<noteq> None)" "hd (split_on space (command c)) = []"
  | (fresh) "\<not> (connected c \<and> process c \<noteq> None)" "hd (split_on space (command c)) \<noteq> []"
  by blast

section \<open>The id counter\<close>

lemma increment_ge: "n \<le> increment n"
  by (simp add: increment_def)

lemma settle_frame [simp]:
  "requestId (settle p s c) = requestId c"
  "effects (settle p s c) = effects c"
  "process (settle p s c) = process c"
  "pendingRequests (settle p s c) = pendingRequests c"
  "spawned (settle p s c) = spawned c"
  "buffer (settle p s c) = buffer c"
  "reactions (settle p s c) = reactions c"
  "connected (settle p s c) = connected c"
  "length (promises (settle p s c)) = length (promises c)"
  by (simp_all add: settle_def)

lemma react_frame [simp]:
  "requestId (react r c) = requestId c"
  "effects (react r c) = effects c"
  "process (react r c) = process c"
  "pendingRequests (react r c) = pendingRequests c"
  "spawned (react r c) = spawned c"
  "length (promises (react r c)) = length (promises c)"
  by (simp_all add: react_def split: settlement.splits)

lemma fold_react_frame [simp]:
  "requestId (fold react rs c) = requestId c"
  "effects (fold react rs c) = effects c"
  "process (fold react rs c) = process c"
  "pendingRequests (fold react rs c) = pendingRequests c"
  "spawned (fold react rs c) = spawned c"
  "length (promises (fold react rs c)) = length (promises c)"
  by (induction rs arbitrary: c) simp_all

lemma microtasks_frame [simp]:
  "requestId (microtasks c) = requestId c"
  "effects (microtasks c) = effects c"
  "process (microtasks c) = process c"
  "pendingRequests (microtasks c) = pendingRequests c"
  "spawned (microtasks c) = spawned c"
  "length (promises (microtasks c)) = length (promises c)"
  by (simp_all add: microtasks_def)

lemma route_ids [simp]:
  "requestId (route line r c) = requestId c"
  "issued (effects (route line r c)) = issued (effects c)"
  "process (route line r c) = process c"
  by (simp_all add: route_def Let_def split: option.splits)

lemma process_line_ids [simp]:
  "requestId (process_line parse l c) = requestId c"
  "issued (effects (process_line parse l c)) = issued (effects c)"
  "process (process_line parse l c) = process c"
  by (simp_all add: process_line_def split: option.splits)

lemma process_lines_ids [simp]:
  "requestId (process_lines parse ls c) = requestId c"
  "issued (effects (process_lines parse ls c)) = issued (effects c)"
  "process (process_lines parse ls c) = process c"
  by (induction ls arbitrary: c) simp_all

lemma handleData_ids [simp]:
  "requestId (handleData parse d c) = requestId c"
  "issued (effects (handleData parse d c)) = issued (effects c)"
  "process (handleData parse d c) = process c"
  by (simp_all add: handleData_eq)

lemma timeout_handler_ids [simp]:
  "requestId (timeout_handler i pr c) = requestId c"
  "effects (timeout_handler i pr c) = effects c"
  by (simp_all add: timeout_handler_def)

lemma disconnect_ids [simp]:
  "requestId (disconnect c) = requestId c"
  "issued (effects (disconnect c)) = issued (effects c)"
  by (simp_all add: disconnect_def split: option.splits)

lemma call_ids: "id_step c (snd (call m ps c))"
  by (cases "process c") (simp_all add: id_step_def call_not_connected call_connected)

lemma connect_ids: "id_step c (snd (connect c))"
proof (cases c rule: connect_cases)
  case ready
  then show ?thesis by (simp add: connect_ready id_step_def)
next
  case refused
  then show ?thesis by (simp add: connect_refused id_step_def)
next
  case fresh
  then show ?thesis by (simp add: connect_fresh id_step_def)
qed

lemma handle_ids: "id_step c (handle parse e c)"
proof (cases e)
  case Connect
  then show ?thesis using connect_ids by simp
next
  case (Call m ps)
  then show ?thesis using call_ids by simp
qed (simp_all add: id_step_def)

lemma step_ids: "id_step c (step parse e c)"
  using handle_ids [of c parse e] by (simp add: step_def id_step_def)

lemma step_requestId_mono: "requestId c \<le> requestId (step parse e c)"
  using step_ids [of c parse e] increment_ge [of "requestId c"] by (auto simp: id_step_def)

lemma run_requestId_mono: "requestId c \<le> requestId (run parse es c)"
proof (induction es arbitrary: c)
  case Nil
  then show ?case by simp
next
  case (Cons e es)
  show ?case
    using Cons.IH [of "step parse e c"] step_requestId_mono [of c parse e] by simp
qed

lemma run_ids:
  assumes "requestId (run parse es c) < 2 ^ 53"
  shows "\<exists>ids. issued (effects (run parse es c)) = issued (effects c) @ ids
              \<and> sorted_wrt (<) ids
              \<and> (\<forall>i\<in>set ids. requestId c < i \<and> i \<le> requestId (run parse es c))"
  using assms
proof (induction es arbitrary: c)
  case Nil
  then show ?case by simp
next
  case (Cons e es)
  let ?d = "step parse e c"
  from Cons.prems have fin: "requestId (run parse es ?d) < 2 ^ 53" by simp
  from Cons.IH [OF fin] obtain ids where
    ids: "issued (effects (run parse es ?d)) = issued (effects ?d) @ ids"
      "sorted_wrt (<) ids"
      "\<forall>i\<in>set ids. requestId ?d < i \<and> i \<le> requestId (run parse es ?d)"
    by blast
  have mono: "requestId ?d \<le> requestId (run parse es ?d)" by (rule run_requestId_mono)
  from step_ids [of c parse e] show ?case
    unfolding id_step_def
  proof
    assume same: "requestId ?d = requestId c \<and> issued (effects ?d) = issued (effects c)"
    with ids show ?thesis by auto
  next
    assume inc: "requestId ?d = increment (requestId c)
       \<and> issued (effects ?d) = issued (effects c) @ [increment (requestId c)]"
    have "requestId c < 2 ^ 53"
      using step_requestId_mono [of c parse e] mono fin by linarith
    then have i: "increment (requestId c) = requestId c + 1" by (simp add: increment_def)
    let ?ids = "(requestId c + 1) # ids"
    have "issued (effects (run parse (e # es) c)) = issued (effects c) @ ?ids"
      using ids(1) inc i by simp
    moreover have "sorted_wrt (<) ?ids"
      using ids(2,3) inc i by auto
    moreover have "\<forall>j\<in>set ?ids. requestId c < j \<and> j \<le> requestId (run parse (e # es) c)"
      using ids(3) inc i mono by auto
    ultimately show ?thesis by blast
  qed
qed


lemma calls_ids:
  assumes "process c = Some p" and "requestId c + length ms \<le> 2 ^ 53"
  shows "issued (effects (run parse (map (\<lambda>(m, ps). Call m ps) ms) c))
           = issued (effects c) @ [Suc (requestId c) ..< Suc (requestId c + length ms)]
       \<and> requestId (run parse (map (\<lambda>(m, ps). Call m ps) ms) c) = requestId c + length ms"
  using assms
proof (induction ms arbitrary: c)
  case Nil
  then show ?case by simp
next
  case (Cons a ms)
  obtain m ps where a: "a = (m, ps)" by (cases a)
  let ?d = "step parse (Call m ps) c"
  have lt: "requestId c < 2 ^ 53" using Cons.prems(2) by simp
  then have i: "increment (requestId c) = requestId c + 1" by (simp add: increment_def)
  have d: "process ?d = Some p" "requestId ?d = requestId c + 1"
    "issued (effects ?d) = issued (effects c) @ [requestId c + 1]"
    using call_connected [OF Cons.prems(1), of m ps] i Cons.prems(1) by (simp_all add: step_def)
  have "requestId ?d + length ms \<le> 2 ^ 53" using d(2) Cons.prems(2) by simp
  from Cons.IH [OF d(1) this] show ?case
    using d a by (simp add: upt_conv_Cons del: upt_Suc)
qed



section \<open>Invariants of the reachable states\<close>

lemma timers_append [simp]: "timers (xs @ ys) = timers xs @ timers ys"
  by (induction xs rule: timers.induct) simp_all






















section \<open>Settled promises stay settled\<close>



lemma settlement_frame [simp]:
  "settlement_of (c\<lparr>pendingRequests := m\<rparr>) pr = settlement_of c pr"
  "settlement_of (c\<lparr>effects := es\<rparr>) pr = settlement_of c pr"
  "settlement_of (c\<lparr>buffer := b\<rparr>) pr = settlement_of c pr"
  "settlement_of (c\<lparr>connected := f\<rparr>) pr = settlement_of c pr"
  "settlement_of (c\<lparr>reactions := rs\<rparr>) pr = settlement_of c pr"
  "settlement_of (c\<lparr>process := p\<rparr>) pr = settlement_of c pr"
  "settlement_of (c\<lparr>spawned := sp\<rparr>) pr = settlement_of c pr"
  "settlement_of (c\<lparr>requestId := n\<rparr>) pr = settlement_of c pr"
  by (simp_all add: settlement_of_def)













section \<open>Following one request\<close>

























section \<open>The example states\<close>

lemma increment_small: "increment 0 = 1" "increment (Suc 0) = 2"
  by (simp_all add: increment_def)

lemma sample_command:
  "split_on space (js ''memory-server --stdio'') = [js ''memory-server'', js ''--stdio'']"
  "js ''memory-server'' \<noteq> []"
  by (simp_all add: js_def space_def)

lemma connecting_client_fields:
  "process connecting_client = Some 0"
  "command connecting_client = js ''memory-server --stdio''"
  "requestId connecting_client = 1"
  "pendingRequests connecting_client = [1 \<mapsto> 1]"
  "buffer connecting_client = []"
  "connected connecting_client = False"
  "promises connecting_client = [Pending, Pending]"
  "spawned connecting_client = [0]"
  "reactions connecting_client = [(1, 0)]"
  "written (effects connecting_client) =
     [JObj [(js ''jsonrpc'', JStr (js ''2.0'')),
            (js ''method'', JStr (js ''initialize'')),
            (js ''params'',
               JObj [(js ''protocolVersion'', JStr (js ''0.1.0'')),
                     (js ''capabilities'', JObj []),
                     (js ''clientInfo'',
                        JObj [(js ''name'', JStr (js ''caiide-memory'')),
                              (js ''version'', JStr (js ''0.1.0''))])]),
            (js ''id'', JNum 1)]]"
  "issued (effects connecting_client) = [1]"
  by (simp_all add: connecting_client_def step_def connect_def initialize_def new_client_def
        new_promise_def call_connected increment_small microtasks_def react_def
        settlement_of_def Let_def sample_command)

lemma sample_parse_lines:
  "sample_parse (JStr (js ''{\"id\":1,\"result\":true}''))
     = Some (JObj [(js ''id'', JNum 1), (js ''result'', JBool True)])"
  "sample_parse (JStr (js ''{\"id\":2,\"result\":true}''))
     = Some (JObj [(js ''id'', JNum 2), (js ''result'', JBool True)])"
  "sample_parse (JStr (js ''{\"id\":7,\"result\":true}''))
     = Some (JObj [(js ''id'', JNum 7), (js ''result'', JBool True)])"
  "sample_parse (JStr (js ''{\"id\":1,\"error\":{\"message\":\"no\"}}''))
     = Some (JObj [(js ''id'', JNum 1), (js ''error'', JObj [(js ''message'', JStr (js ''no''))])])"
  "sample_parse (JStr (js ''oops'')) = None"
  by (simp_all add: sample_lines_def)

declare sample_parse.simps [simp del]

lemma response_fields:
  "get_property (JObj [(js ''id'', JNum n), (js ''result'', v)]) (js ''id'') = Some (JNum n)"
  "get_property (JObj [(js ''id'', JNum n), (js ''result'', v)]) (js ''error'') = None"
  "get_property (JObj [(js ''id'', JNum n), (js ''result'', v)]) (js ''result'') = Some v"
  "get_property (JObj [(js ''id'', JNum n), (js ''error'', e)]) (js ''id'') = Some (JNum n)"
  "get_property (JObj [(js ''id'', JNum n), (js ''error'', e)]) (js ''error'') = Some e"
  "get_property (JObj [(js ''message'', m)]) (js ''message'') = Some m"
  by simp_all

lemma sample_lines_shape:
  "newline \<notin> set (js ''{\"id\":1,\"result\":true}'')"
  "newline \<notin> set (js ''{\"id\":2,\"result\":true}'')"
  "newline \<notin> set (js ''{\"id\":7,\"result\":true}'')"
  "newline \<notin> set (js ''{\"id\":1,\"error\":{\"message\":\"no\"}}'')"
  "newline \<notin> set (js ''oops'')"
  "trim (js ''{\"id\":1,\"result\":true}'') \<noteq> []"
  "trim (js ''{\"id\":2,\"result\":true}'') \<noteq> []"
  "trim (js ''{\"id\":7,\"result\":true}'') \<noteq> []"
  "trim (js ''{\"id\":1,\"error\":{\"message\":\"no\"}}'') \<noteq> []"
  "trim (js ''oops'') \<noteq> []"
  by (simp_all add: js_def newline_def trim_def is_whitespace_def)

lemma feed_one_line: "newline \<notin> set line \<Longrightarrow> feed [] (line @ [newline]) = ([line], [])"
  using split_on_append_sep [of newline line "[]"] by (simp add: feed_eq split_on_nosep)

lemma feed_two_lines:
  "newline \<notin> set l1 \<Longrightarrow> newline \<notin> set l2 \<Longrightarrow>
   feed [] (l1 @ newline # l2 @ [newline]) = ([l1, l2], [])"
  using split_on_append_sep [of newline l1 "l2 @ [newline]"]
    split_on_append_sep [of newline l2 "[]"]
  by (simp add: feed_eq split_on_nosep)

lemma ready_client_fields:
  "process ready_client = Some 0"
  "command ready_client = js ''memory-server --stdio''"
  "requestId ready_client = 1"
  "pendingRequests ready_client = Map.empty"
  "buffer ready_client = []"
  "connected ready_client = True"
  "promises ready_client = [Fulfilled None, Fulfilled (Some (JBool True))]"
  "spawned ready_client = [0]"
  "reactions ready_client = []"
  "effects ready_client = effects connecting_client"
  by (simp_all add: ready_client_def step_def handleData_def feed_one_line sample_lines_shape
        process_line_def sample_parse_lines route_def response_fields settle_def
        microtasks_def react_def settlement_of_def connecting_client_fields)

lemma closed_client_fields:
  "process closed_client = Some 0"
  "requestId closed_client = 1"
  "pendingRequests closed_client = Map.empty"
  "buffer closed_client = []"
  "connected closed_client = False"
  "promises closed_client = [Fulfilled None, Fulfilled (Some (JBool True))]"
  "written (effects closed_client) = written (effects connecting_client)"
  by (simp_all add: closed_client_def step_def microtasks_def ready_client_fields)

lemma searching_client_fields:
  "process searching_client = Some 0"
  "command searching_client = js ''memory-server --stdio''"
  "requestId searching_client = 2"
  "pendingRequests searching_client = [2 \<mapsto> 2]"
  "buffer searching_client = []"
  "connected searching_client = True"
  "promises searching_client = [Fulfilled None, Fulfilled (Some (JBool True)), Pending]"
  "spawned searching_client = [0]"
  "reactions searching_client = []"
  "written (effects searching_client) =
     written (effects connecting_client) @
     [JObj [(js ''jsonrpc'', JStr (js ''2.0'')),
            (js ''method'', JStr (js ''tools/call'')),
            (js ''params'',
               JObj [(js ''name'', JStr (js ''memory_search'')),
                     (js ''arguments'',
                        JObj [(js ''query'', JStr (js ''foo'')), (js ''limit'', JNum 20)])]),
            (js ''id'', JNum 2)]]"
  "issued (effects searching_client) = [1, 2]"
  "SetTimeout 2 2 30000 \<in> set (effects searching_client)"
  by (simp_all add: searching_client_def search_def tool_request_def
        call_connected [OF ready_client_fields(1)] ready_client_fields increment_small
        connecting_client_fields numeral_2_eq_2)







lemma answered_client:
  "step sample_parse (StdoutData 0 (js ''{\"id\":2,\"result\":true}'' @ [newline])) searching_client =
     searching_client\<lparr>pendingRequests := Map.empty,
       promises := [Fulfilled None, Fulfilled (Some (JBool True)), Fulfilled (Some (JBool True))]\<rparr>"
  by (simp add: step_def handleData_def feed_one_line sample_lines_shape process_line_def
        sample_parse_lines route_def response_fields settle_def microtasks_def
        searching_client_fields)


section \<open>Claims\<close>






text \<open>
  C9. A line that decodes to a response (any value but \<open>null\<close>) whose \<open>id\<close> finds no entry in
  the pending map leaves the whole state as it was: pending map, promises, effects. So does a
  chunk that consists of such a line, on an empty buffer.
\<close>

theorem orphan_response_discarded:
  assumes "parse (JStr line) = Some response"
    and "response \<noteq> JNull"
    and "lookup_pending c (get_property response (js ''id'')) = None"
  shows "process_line parse line c = c
    \<and> (buffer c = [] \<and> newline \<notin> set line \<longrightarrow> handleData parse (line @ [newline]) c = c)"
proof -
  have r: "route line response c = c"
    using assms by (simp add: route_def)
  have p: "process_line parse line c = c"
    using assms r by (simp add: process_line_def)
  have "feed [] (line @ [newline]) = ([line], [])" if "newline \<notin> set line"
    using that split_on_append_sep [of newline line "[]"] by (simp add: feed_eq split_on_nosep)
  then have "handleData parse (line @ [newline]) c = c" if "buffer c = []" "newline \<notin> set line"
    using that p by (simp add: handleData_eq)
  with p show ?thesis by blast
qed

theorem orphan_response_discarded_witness:
  "sample_parse (JStr (js ''{\"id\":7,\"result\":true}''))
     = Some (JObj [(js ''id'', JNum 7), (js ''result'', JBool True)])
   \<and> JObj [(js ''id'', JNum 7), (js ''result'', JBool True)] \<noteq> JNull
   \<and> lookup_pending searching_client (Some (JNum 7)) = None
   \<and> pendingRequests searching_client 2 = Some 2
   \<and> buffer searching_client = []
   \<and> newline \<notin> set (js ''{\"id\":7,\"result\":true}'')
   \<and> handleData sample_parse (js ''{\"id\":7,\"result\":true}'' @ [newline]) searching_client
       = searching_client"
  using orphan_response_discarded [of sample_parse "js ''{\"id\":7,\"result\":true}''"
      "JObj [(js ''id'', JNum 7), (js ''result'', JBool True)]"
      searching_client]
  by (simp add: sample_parse_lines sample_lines_shape searching_client_fields)


text \<open>
  C6. A line that \<open>JSON.parse\<close> rejects has one effect only: it is reported on the console
  (a blank one is skipped before decoding and has none); no promise is settled and no pending
  entry removed. The loop goes on: for a malformed line that starts at a line boundary, the
  client after the chunk and after any later chunks is, effects apart, the client that the
  same data without that line leaves.
\<close>

theorem malformed_line_isolated:
  assumes "parse (JStr bad) = None"
  shows "process_line parse bad c =
           (if trim bad = [] then c
            else c\<lparr>effects := effects c @
                    [ConsoleError (js ''Failed to parse MCP response:'') bad (Some SyntaxError)]\<rparr>)
    \<and> (newline \<notin> set bad \<and> snd (feed (buffer c) pre) = [] \<longrightarrow>
         (fold (handleData parse) later (handleData parse (pre @ bad @ newline # post) c))
            \<lparr>effects := []\<rparr>
         = (fold (handleData parse) later (handleData parse (pre @ post) c))\<lparr>effects := []\<rparr>)"
proof -
  have one: "process_line parse bad c =
           (if trim bad = [] then c
            else c\<lparr>effects := effects c @
                    [ConsoleError (js ''Failed to parse MCP response:'') bad (Some SyntaxError)]\<rparr>)"
    for c
    using assms by (rule process_line_malformed)
  have two: "(fold (handleData parse) later (handleData parse (pre @ bad @ newline # post) c))
            \<lparr>effects := []\<rparr>
         = (fold (handleData parse) later (handleData parse (pre @ post) c))\<lparr>effects := []\<rparr>"
    if nl: "newline \<notin> set bad" and b: "snd (feed (buffer c) pre) = []"
  proof -
    let ?L = "fst (feed (buffer c) pre)"
    let ?P = "fst (feed [] post)"
    let ?c1 = "process_lines parse ?L c"
    have skip: "(process_line parse bad ?c1)\<lparr>effects := []\<rparr> = ?c1\<lparr>effects := []\<rparr>"
      by (simp add: one)
    have "(process_lines parse ?P (process_line parse bad ?c1))\<lparr>effects := []\<rparr>
          = (process_lines parse ?P ?c1)\<lparr>effects := []\<rparr>"
      by (rule process_lines_erase [OF skip])
    moreover have "handleData parse (pre @ bad @ newline # post) c
          = (process_lines parse ?P (process_line parse bad ?c1))\<lparr>buffer := snd (feed [] post)\<rparr>"
      by (simp add: handleData_eq feed_line_boundary(1) [OF b nl] process_lines_append)
    moreover have "handleData parse (pre @ post) c
          = (process_lines parse ?P ?c1)\<lparr>buffer := snd (feed [] post)\<rparr>"
      by (simp add: handleData_eq feed_line_boundary(2) [OF b nl] process_lines_append)
    ultimately have "(handleData parse (pre @ bad @ newline # post) c)\<lparr>effects := []\<rparr>
          = (handleData parse (pre @ post) c)\<lparr>effects := []\<rparr>"
      using erase_update_buffer [of "process_lines parse ?P (process_line parse bad ?c1)"
               "process_lines parse ?P ?c1" "snd (feed [] post)"]
      by simp
    then show ?thesis by (rule fold_handleData_erase)
  qed
  from one two show ?thesis by blast
qed


theorem malformed_line_isolated_witness:
  "sample_parse (JStr (js ''oops'')) = None
   \<and> newline \<notin> set (js ''oops'')
   \<and> snd (feed (buffer connecting_client) []) = []
   \<and> pendingRequests connecting_client 1 = Some 1
   \<and> settlement_of connecting_client 1 = Pending
   \<and> process_line sample_parse (js ''oops'') connecting_client
       = connecting_client\<lparr>effects := effects connecting_client @
           [ConsoleError (js ''Failed to parse MCP response:'') (js ''oops'') (Some SyntaxError)]\<rparr>
   \<and> settlement_of
         (handleData sample_parse
            (js ''oops'' @ newline # js ''{\"id\":1,\"result\":true}'' @ [newline])
            connecting_client) 1
       = Fulfilled (Some (JBool True))
   \<and> (handleData sample_parse
          (js ''oops'' @ newline # js ''{\"id\":1,\"result\":true}'' @ [newline])
          connecting_client)\<lparr>effects := []\<rparr>
       = (handleData sample_parse (js ''{\"id\":1,\"result\":true}'' @ [newline])
            connecting_client)\<lparr>effects := []\<rparr>"
  using malformed_line_isolated [of sample_parse "js ''oops''" connecting_client "[]" "[]"
      "js ''{\"id\":1,\"result\":true}'' @ [newline]"]
  by (simp add: sample_parse_lines sample_lines_shape connecting_client_fields feed_nothing
        settlement_of_def handleData_def feed_two_lines process_line_def route_def settle_def)


text \<open>What the three decoding methods return when the text decodes.\<close>

lemma decoded_value_returned:
  "content_text r = Some text \<Longrightarrow> truthy (Some text) \<Longrightarrow> parse text = Some v \<Longrightarrow>
   search_result parse r = Inr v \<and> list_result parse r = Inr v \<and> recall_result parse r = Inr v"
  by (simp add: search_result_def list_result_def recall_result_def)

text \<open>
  C5, as amended. Let the call of \<open>search\<close>, \<open>list\<close> or \<open>recall\<close> be fulfilled with a result.
  When \<open>content[0].text\<close> of the result is missing (absent or falsy), or is a text that
  \<open>JSON.parse\<close> rejects, the promise of \<open>search\<close> and of \<open>list\<close> is fulfilled with the empty
  array and that of \<open>recall\<close> with \<open>null\<close>. When it is a truthy text that \<open>JSON.parse\<close> accepts,
  each of the three is fulfilled with the parsed value as it is: its shape is not checked, so
  \<open>search\<close> and \<open>list\<close> hand on a value that need not be an array. For no result at all does
  one of the three throw.
\<close>

theorem decode_failure_defaults:
  "(\<not> truthy (content_text r) \<or> (\<exists>text. content_text r = Some text \<and> parse text = None) \<longrightarrow>
      awaited (search_result parse) (Fulfilled r) = Fulfilled (Some (JArr []))
      \<and> awaited (list_result parse) (Fulfilled r) = Fulfilled (Some (JArr []))
      \<and> awaited (recall_result parse) (Fulfilled r) = Fulfilled (Some JNull))
   \<and> (content_text r = Some text \<and> truthy (Some text) \<and> parse text = Some v \<longrightarrow>
      awaited (search_result parse) (Fulfilled r) = Fulfilled (Some v)
      \<and> awaited (list_result parse) (Fulfilled r) = Fulfilled (Some v)
      \<and> awaited (recall_result parse) (Fulfilled r) = Fulfilled (Some v))
   \<and> (\<exists>v. search_result parse r = Inr v)
   \<and> (\<exists>v. list_result parse r = Inr v)
   \<and> (\<exists>v. recall_result parse r = Inr v)"
  using decoded_value_returned [of r "text" parse v]
  by (auto simp: awaited_def search_result_def list_result_def recall_result_def
           split: option.splits)

theorem decode_failure_defaults_witness:
  "content_text (Some (JObj [(js ''content'', JArr [JObj [(js ''text'', JStr (js ''oops''))]])]))
     = Some (JStr (js ''oops''))
   \<and> sample_parse (JStr (js ''oops'')) = None
   \<and> awaited (search_result sample_parse)
         (Fulfilled (Some (JObj [(js ''content'', JArr [JObj [(js ''text'', JStr (js ''oops''))]])])))
       = Fulfilled (Some (JArr []))
   \<and> \<not> truthy (content_text (Some (JObj [(js ''status'', JStr (js ''ok''))])))
   \<and> awaited (recall_result sample_parse) (Fulfilled (Some (JObj [(js ''status'', JStr (js ''ok''))])))
       = Fulfilled (Some JNull)
   \<and> awaited (list_result sample_parse) (Fulfilled None) = Fulfilled (Some (JArr []))
   \<and> content_text (Some (JObj [(js ''content'',
         JArr [JObj [(js ''text'', JStr (js ''{\"id\":7,\"result\":true}''))]])]))
       = Some (JStr (js ''{\"id\":7,\"result\":true}''))
   \<and> truthy (Some (JStr (js ''{\"id\":7,\"result\":true}'')))
   \<and> sample_parse (JStr (js ''{\"id\":7,\"result\":true}''))
       = Some (JObj [(js ''id'', JNum 7), (js ''result'', JBool True)])
   \<and> awaited (recall_result sample_parse)
         (Fulfilled (Some (JObj [(js ''content'',
            JArr [JObj [(js ''text'', JStr (js ''{\"id\":7,\"result\":true}''))]])])))
       = Fulfilled (Some (JObj [(js ''id'', JNum 7), (js ''result'', JBool True)]))"
  using decode_failure_defaults [of "Some (JObj [(js ''content'', JArr [JObj [(js ''text'', JStr (js ''oops''))]])])" sample_parse
      "JStr (js ''oops'')" JNull]
    decode_failure_defaults [of "Some (JObj [(js ''status'', JStr (js ''ok''))])" sample_parse
      "JStr (js ''oops'')" JNull]
    decode_failure_defaults [of None sample_parse "JStr (js ''oops'')" JNull]
    decode_failure_defaults [of "Some (JObj [(js ''content'',
         JArr [JObj [(js ''text'', JStr (js ''{\"id\":7,\"result\":true}''))]])])" sample_parse
      "JStr (js ''{\"id\":7,\"result\":true}'')"
      "JObj [(js ''id'', JNum 7), (js ''result'', JBool True)]"]
  by (simp add: content_text_def sample_parse_lines)

text \<open>The claim as stated fails: the text of this result is JSON, but not an array, and the
  promises of \<open>search\<close> and of \<open>list\<close> are fulfilled with the object it denotes, which is not
  a sequence.\<close>

theorem decode_shape_counterexample:
  "content_text (Some (JObj [(js ''content'',
         JArr [JObj [(js ''text'', JStr (js ''{\"id\":7,\"result\":true}''))]])]))
       = Some (JStr (js ''{\"id\":7,\"result\":true}''))
   \<and> sample_parse (JStr (js ''{\"id\":7,\"result\":true}''))
       = Some (JObj [(js ''id'', JNum 7), (js ''result'', JBool True)])
   \<and> awaited (search_result sample_parse)
         (Fulfilled (Some (JObj [(js ''content'',
            JArr [JObj [(js ''text'', JStr (js ''{\"id\":7,\"result\":true}''))]])])))
       = Fulfilled (Some (JObj [(js ''id'', JNum 7), (js ''result'', JBool True)]))
   \<and> awaited (list_result sample_parse)
         (Fulfilled (Some (JObj [(js ''content'',
            JArr [JObj [(js ''text'', JStr (js ''{\"id\":7,\"result\":true}''))]])])))
       = Fulfilled (Some (JObj [(js ''id'', JNum 7), (js ''result'', JBool True)]))
   \<and> (\<forall>xs. JObj [(js ''id'', JNum 7), (js ''result'', JBool True)] \<noteq> JArr xs)"
  by (simp add: content_text_def sample_parse_lines awaited_def search_result_def
        list_result_def)

text \<open>
  C7, as amended. On a client that holds a worker process \<open>p\<close>, \<open>search(query, limit)\<close> writes
  to the input of \<open>p\<close> exactly once: \<open>JSON.stringify\<close> of the envelope
  \<open>{jsonrpc: "2.0", method: "tools/call", params: {name: "memory_search", arguments: {query,
  limit}}, id}\<close> followed by one newline, where \<open>id\<close> is the incremented counter; it arms one
  timer and registers the returned promise under that id.
\<close>

theorem search_envelope:
  assumes "process c = Some p"
  shows "effects (snd (search query limit c)) =
           effects c @
           [StdinWrite p
              (JObj [(js ''jsonrpc'', JStr (js ''2.0'')),
                     (js ''method'', JStr (js ''tools/call'')),
                     (js ''params'',
                        JObj [(js ''name'', JStr (js ''memory_search'')),
                              (js ''arguments'',
                                 JObj [(js ''query'', JStr query),
                                       (js ''limit'', JNum (case limit of None \<Rightarrow> 20 | Some l \<Rightarrow> l))])]),
                     (js ''id'', JNum (int (increment (requestId c))))])
              [newline],
            SetTimeout (increment (requestId c)) (length (promises c)) 30000]
     \<and> requestId (snd (search query limit c)) = increment (requestId c)
     \<and> pendingRequests (snd (search query limit c)) (increment (requestId c))
         = Some (fst (search query limit c))"
  using assms
  by (simp add: search_def call_def tool_request_def new_promise_def Let_def)

theorem search_envelope_witness:
  "process ready_client = Some 0
   \<and> isConnected ready_client
   \<and> written (effects (snd (search (js ''foo'') (Some 20) ready_client)))
       = written (effects ready_client) @
         [JObj [(js ''jsonrpc'', JStr (js ''2.0'')),
                (js ''method'', JStr (js ''tools/call'')),
                (js ''params'',
                   JObj [(js ''name'', JStr (js ''memory_search'')),
                         (js ''arguments'',
                            JObj [(js ''query'', JStr (js ''foo'')), (js ''limit'', JNum 20)])]),
                (js ''id'', JNum 2)]]"
  using search_envelope [of ready_client 0 "js ''foo''" "Some 20"]
  by (simp add: ready_client_fields isConnected_def increment_small)

text \<open>The claim as stated fails: on a ready client the envelope of \<open>search("foo", 20)\<close> has
  the method \<open>tools/call\<close>, its \<open>params\<close> are not \<open>{query, limit}\<close>, and its tag is \<open>jsonrpc\<close>, not
  \<open>protocol\<close>.\<close>

theorem search_envelope_counterexample:
  "isConnected ready_client
   \<and> get_property (last (written (effects (snd (search (js ''foo'') (Some 20) ready_client)))))
         (js ''method'') = Some (JStr (js ''tools/call''))
   \<and> get_property (last (written (effects (snd (search (js ''foo'') (Some 20) ready_client)))))
         (js ''method'') \<noteq> Some (JStr (js ''memory_search''))
   \<and> get_property (last (written (effects (snd (search (js ''foo'') (Some 20) ready_client)))))
         (js ''params'')
       \<noteq> Some (JObj [(js ''query'', JStr (js ''foo'')), (js ''limit'', JNum 20)])
   \<and> get_property (last (written (effects (snd (search (js ''foo'') (Some 20) ready_client)))))
         (js ''protocol'') = None
   \<and> get_property (last (written (effects (snd (search (js ''foo'') (Some 20) ready_client)))))
         (js ''jsonrpc'') = Some (JStr (js ''2.0''))"
  by (simp add: ready_client_fields isConnected_def searching_client_fields
        searching_client_def [symmetric])


text \<open>
  C8, as amended. The guard of \<open>call\<close> looks at the process handle, not at the \<open>connected\<close> flag.
  On a client that holds no worker process (before the first \<open>connect\<close>, after \<open>disconnect\<close>),
  \<open>call\<close> returns a promise rejected with \<open>Not connected to MCP server\<close> and does nothing else:
  nothing is written, no timer is armed, no id is used, nothing is registered. The same holds
  for each of the six typed methods.
\<close>

theorem call_without_process:
  assumes "process c = None"
  shows "call method params c =
           (length (promises c),
            c\<lparr>promises := promises c @
                 [Rejected (Error (Some (JStr (js ''Not connected to MCP server''))))]\<rparr>)
    \<and> settlement_of (snd (call method params c)) (fst (call method params c))
        = Rejected (Error (Some (JStr (js ''Not connected to MCP server''))))
    \<and> effects (snd (call method params c)) = effects c
    \<and> effects (snd (search query limit c)) = effects c
    \<and> effects (snd (store content type source tags c)) = effects c
    \<and> effects (snd (recall ident c)) = effects c
    \<and> effects (snd (list_memories limit c)) = effects c
    \<and> effects (snd (getStats c)) = effects c
    \<and> effects (snd (delete_memory ident c)) = effects c
    \<and> requestId (snd (call method params c)) = requestId c
    \<and> pendingRequests (snd (call method params c)) = pendingRequests c"
  by (simp add: call_not_connected [OF assms] settlement_of_def search_def store_def recall_def
        list_memories_def getStats_def delete_memory_def)

theorem call_without_process_witness:
  "process (disconnect ready_client) = None
   \<and> effects (snd (search (js ''foo'') (Some 20) (disconnect ready_client)))
       = effects (disconnect ready_client)
   \<and> settlement_of (snd (call (js ''tools/call'') JNull (disconnect ready_client)))
         (fst (call (js ''tools/call'') JNull (disconnect ready_client)))
       = Rejected (Error (Some (JStr (js ''Not connected to MCP server''))))"
  using call_without_process [of "disconnect ready_client" "js ''tools/call''" JNull
      "js ''foo''" "Some 20" "[]" "[]" "[]" None "[]"]
  by (simp add: disconnect_def ready_client_fields call_not_connected search_def
        settlement_of_def)

text \<open>The claim as stated fails: a client whose worker has exited is not ready, and neither is
  one that awaits the handshake, yet on both \<open>search\<close> writes its envelope to the worker and
  returns a pending promise.\<close>

theorem call_not_ready_counterexample:
  "\<not> isConnected closed_client
   \<and> written (effects (snd (search (js ''foo'') (Some 20) closed_client)))
       \<noteq> written (effects closed_client)
   \<and> settlement_of (snd (search (js ''foo'') (Some 20) closed_client))
         (fst (search (js ''foo'') (Some 20) closed_client)) = Pending
   \<and> \<not> isConnected connecting_client
   \<and> written (effects (snd (search (js ''foo'') (Some 20) connecting_client)))
       \<noteq> written (effects connecting_client)"
  by (simp add: isConnected_def closed_client_fields connecting_client_fields search_def
        call_connected [OF closed_client_fields(1)] call_connected [OF connecting_client_fields(1)]
        settlement_of_def)





text \<open>
  C4. On a client that holds a worker process, a sequence of \<open>n\<close> calls is assigned the ids
  \<open>r + 1, \<dots>, r + n\<close> in this order, where \<open>r\<close> is the counter before the first call: one id
  per call, strictly increasing, pairwise distinct, and distinct from every id assigned
  before, none of which is above the counter. The counter is a JavaScript number and counts
  exactly up to \<open>2 ^ 53\<close>, which bounds \<open>r + n\<close>.
\<close>

theorem call_ids_increasing:
  assumes "process c = Some p"
    and "requestId c + length ms \<le> 2 ^ 53"
    and "\<forall>i\<in>set (issued (effects c)). i \<le> requestId c"
  shows "issued (effects (run parse (map (\<lambda>(m, ps). Call m ps) ms) c))
           = issued (effects c) @ [Suc (requestId c) ..< Suc (requestId c + length ms)]
    \<and> sorted_wrt (<) [Suc (requestId c) ..< Suc (requestId c + length ms)]
    \<and> distinct [Suc (requestId c) ..< Suc (requestId c + length ms)]
    \<and> set [Suc (requestId c) ..< Suc (requestId c + length ms)] \<inter> set (issued (effects c)) = {}
    \<and> requestId (run parse (map (\<lambda>(m, ps). Call m ps) ms) c) = requestId c + length ms"
proof -
  have "set [Suc (requestId c) ..< Suc (requestId c + length ms)] \<inter> set (issued (effects c)) = {}"
    using assms(3) by fastforce
  then show ?thesis
    using calls_ids [OF assms(1,2), of parse] by (simp del: upt_Suc)
qed

theorem call_ids_increasing_witness:
  "process searching_client = Some 0
   \<and> requestId searching_client + length [(js ''tools/call'', JNull), (js ''initialize'', JNull)]
       \<le> 2 ^ 53
   \<and> issued (effects searching_client) = [1, 2]
   \<and> 1 \<le> requestId searching_client \<and> 2 \<le> requestId searching_client
   \<and> issued (effects (run sample_parse
              [Call (js ''tools/call'') JNull, Call (js ''initialize'') JNull]
              searching_client)) = [1, 2, 3, 4]"
  using call_ids_increasing [of searching_client 0
      "[(js ''tools/call'', JNull), (js ''initialize'', JNull)]" sample_parse]
  by (simp add: searching_client_fields upt_conv_Cons)


text \<open>
  C10. Neither \<open>disconnect\<close> nor \<open>connect\<close> resets the id counter: \<open>disconnect\<close> leaves it as it
  is, \<open>connect\<close> at most increments it (for its \<open>initialize\<close> request). Over any sequence of
  events (connects, disconnects, calls, data, process events, timers) the counter never
  decreases, the ids already issued stay issued, and the ids issued during the sequence are
  strictly increasing and above the counter at its start; so all ids issued in the life of a
  client are strictly increasing and pairwise distinct. The counter counts exactly up to
  \<open>2 ^ 53\<close>; the statement is for runs that stay below.
\<close>

theorem ids_never_reset:
  assumes "requestId (run parse es c) < 2 ^ 53"
  shows "requestId (disconnect c) = requestId c
    \<and> requestId c \<le> requestId (snd (connect c))
    \<and> requestId c \<le> requestId (run parse es c)
    \<and> take (length (issued (effects c))) (issued (effects (run parse es c))) = issued (effects c)
    \<and> sorted_wrt (<) (drop (length (issued (effects c))) (issued (effects (run parse es c))))
    \<and> (\<forall>i\<in>set (drop (length (issued (effects c))) (issued (effects (run parse es c)))).
          requestId c < i \<and> i \<le> requestId (run parse es c))
    \<and> (issued (effects c) = [] \<longrightarrow>
          sorted_wrt (<) (issued (effects (run parse es c)))
          \<and> distinct (issued (effects (run parse es c))))"
proof -
  from run_ids [OF assms] obtain ids where
    ids: "issued (effects (run parse es c)) = issued (effects c) @ ids"
      "sorted_wrt (<) ids"
      "\<forall>i\<in>set ids. requestId c < i \<and> i \<le> requestId (run parse es c)"
    by blast
  have "requestId c \<le> requestId (snd (connect c))"
    using connect_ids [of c] increment_ge [of "requestId c"] by (auto simp: id_step_def)
  moreover have "distinct ids"
    using ids(2) strict_sorted_iff by blast
  ultimately show ?thesis
    using ids run_requestId_mono [of c parse es] by simp
qed


theorem ids_never_reset_witness:
  "requestId (run sample_parse [Disconnect, Connect, Call (js ''tools/call'') JNull]
      searching_client) < 2 ^ 53
   \<and> issued (effects searching_client) = [1, 2]
   \<and> requestId searching_client = 2
   \<and> issued (effects (run sample_parse [Disconnect, Connect, Call (js ''tools/call'') JNull]
        searching_client)) = [1, 2, 3, 4]
   \<and> issued (effects (new_client (js ''memory-server --stdio''))) = []
   \<and> requestId (run sample_parse [Connect, Disconnect, Connect]
        (new_client (js ''memory-server --stdio''))) < 2 ^ 53
   \<and> issued (effects (run sample_parse [Connect, Disconnect, Connect]
        (new_client (js ''memory-server --stdio'')))) = [1, 2]
   \<and> requestId (run sample_parse [Connect, Disconnect, Connect] (new_client [])) < 2 ^ 53
   \<and> issued (effects (run sample_parse [Connect, Disconnect, Connect] (new_client []))) = []"
  using ids_never_reset [of sample_parse "[Disconnect, Connect, Call (js ''tools/call'') JNull]"
      searching_client]
    ids_never_reset [of sample_parse "[Connect, Disconnect, Connect]"
      "new_client (js ''memory-server --stdio'')"]
    ids_never_reset [of sample_parse "[Connect, Disconnect, Connect]" "new_client []"]
  by (simp add: searching_client_fields step_def disconnect_def connect_fresh connect_refused
        call_connected sample_command microtasks_def react_def settlement_of_def increment_def
        new_client_def)



end
